theory Spec2Isabelle
  imports Complex_Main
begin

section \<open>Python values\<close>

text \<open>
  The program is \<^verbatim>\<open>updatabase.py\<close>: a \<^verbatim>\<open>ScholarshipManager\<close> that keeps student
  records in an SQLite table and computes an award for each of them.

  Python text is modelled by HOL strings, the strings of code points below 256, and the
  case mappings of \<^verbatim>\<open>str\<close> on ASCII text. A Python \<^verbatim>\<open>float\<close> is an
  IEEE 754 binary64 number; it is modelled by a mantissa and a binary exponent, the
  number \<open>mant * 2 ^ expo\<close>, and every arithmetic operation rounds its exact result to
  53 significant bits, to nearest, ties to even. The exponent range of binary64
  (and with it infinities, NaN and the signed zero) is not modelled: the amounts of a
  student lie between 1000 and 51000, and the sums of the report are studied below
  \<open>2 ^ 53\<close>.
\<close>

datatype float64 = F64 (mant: int) (expo: int)

definition valof :: "float64 \<Rightarrow> rat" where
  "valof f = of_int (mant f) * 2 powi (expo f)"

text \<open>Python's \<^verbatim>\<open>int.bit_length\<close>, on the absolute value.\<close>

fun bit_length :: "nat \<Rightarrow> nat" where
  "bit_length n = (if n = 0 then 0 else Suc (bit_length (n div 2)))"

declare bit_length.simps [simp del]

text \<open>
  Rounding of the exact number \<open>m * 2 ^ e\<close> to a binary64 significand: a number of at most
  53 bits is kept; a longer one loses its low \<open>k\<close> bits, rounded to nearest, a tie to the
  even neighbour.
\<close>

definition round_half_even :: "int \<Rightarrow> nat \<Rightarrow> int" where
  "round_half_even a k =
     (let q = a div 2 ^ k;
          r = a mod 2 ^ k;
          half = 2 ^ (k - 1)
      in if half < r \<or> (r = half \<and> odd q) then q + 1 else q)"

definition round_to_53 :: "int \<Rightarrow> int \<Rightarrow> float64" where
  "round_to_53 m e =
     (if bit_length (nat \<bar>m\<bar>) \<le> 53 then F64 m e
      else F64 (sgn m * round_half_even \<bar>m\<bar> (bit_length (nat \<bar>m\<bar>) - 53))
               (e + int (bit_length (nat \<bar>m\<bar>) - 53)))"

definition float_of_int :: "int \<Rightarrow> float64" where
  "float_of_int n = round_to_53 n 0"

definition fmul :: "float64 \<Rightarrow> float64 \<Rightarrow> float64" where
  "fmul x y = round_to_53 (mant x * mant y) (expo x + expo y)"

definition fsub :: "float64 \<Rightarrow> float64 \<Rightarrow> float64" where
  "fsub x y =
     (let e = min (expo x) (expo y) in
      round_to_53 (mant x * 2 ^ nat (expo x - e) - mant y * 2 ^ nat (expo y - e)) e)"

definition fadd :: "float64 \<Rightarrow> float64 \<Rightarrow> float64" where
  "fadd x y =
     (let e = min (expo x) (expo y) in
      round_to_53 (mant x * 2 ^ nat (expo x - e) + mant y * 2 ^ nat (expo y - e)) e)"

datatype pyval =
    PyNone
  | PyBool bool
  | PyInt int
  | PyFloat float64
  | PyStr string

text \<open>The truth value Python gives an object in \<^verbatim>\<open>if x:\<close>.\<close>

fun truthy :: "pyval \<Rightarrow> bool" where
  "truthy PyNone = False"
| "truthy (PyBool b) = b"
| "truthy (PyInt n) = (n \<noteq> 0)"
| "truthy (PyFloat f) = (mant f \<noteq> 0)"
| "truthy (PyStr s) = (s \<noteq> [])"

datatype py_error = KeyError string | OverflowError | TypeError | ValueError

type_synonym 'v pydict = "string \<Rightarrow> 'v option"

text \<open>\<^verbatim>\<open>d[k]\<close> raises \<^verbatim>\<open>KeyError\<close> on a missing key; \<^verbatim>\<open>d.get(k)\<close> returns \<^verbatim>\<open>None\<close>.\<close>

definition subscript :: "'v pydict \<Rightarrow> string \<Rightarrow> py_error + 'v" where
  "subscript d k = (case d k of None \<Rightarrow> Inl (KeyError k) | Some v \<Rightarrow> Inr v)"

definition dict_get :: "pyval pydict \<Rightarrow> string \<Rightarrow> pyval" where
  "dict_get d k = (case d k of None \<Rightarrow> PyNone | Some v \<Rightarrow> v)"

text \<open>Sequencing of computations that may raise: the first exception ends the run.\<close>

definition and_then :: "py_error + 'a \<Rightarrow> ('a \<Rightarrow> py_error + 'b) \<Rightarrow> py_error + 'b" where
  "and_then r f = (case r of Inl err \<Rightarrow> Inl err | Inr v \<Rightarrow> f v)"

text \<open>
  Python's \<^verbatim>\<open>x + y\<close> on the values of the model: a \<^verbatim>\<open>bool\<close> counts as the integer 0 or
  1, an \<^verbatim>\<open>int\<close> added to a \<^verbatim>\<open>float\<close> is converted to a \<^verbatim>\<open>float\<close> first, two strings are
  concatenated, and every other combination raises \<^verbatim>\<open>TypeError\<close>.
\<close>

fun unbool :: "pyval \<Rightarrow> pyval" where
  "unbool (PyBool b) = PyInt (if b then 1 else 0)"
| "unbool v = v"

fun add_numbers :: "pyval \<Rightarrow> pyval \<Rightarrow> py_error + pyval" where
  "add_numbers (PyInt a) (PyInt b) = Inr (PyInt (a + b))"
| "add_numbers (PyInt a) (PyFloat y) = Inr (PyFloat (fadd (float_of_int a) y))"
| "add_numbers (PyFloat x) (PyInt b) = Inr (PyFloat (fadd x (float_of_int b)))"
| "add_numbers (PyFloat x) (PyFloat y) = Inr (PyFloat (fadd x y))"
| "add_numbers (PyStr s) (PyStr t) = Inr (PyStr (s @ t))"
| "add_numbers _ _ = Inl TypeError"

definition py_add :: "pyval \<Rightarrow> pyval \<Rightarrow> py_error + pyval" where
  "py_add x y = add_numbers (unbool x) (unbool y)"

text \<open>
  The format specification \<^verbatim>\<open>.2f\<close>: the exact value of the number is rounded to two
  decimal places, to nearest, ties to even. \<open>two_decimals\<close> is the result in hundredths.
  An \<^verbatim>\<open>int\<close> is converted to a \<^verbatim>\<open>float\<close> first; a string raises \<^verbatim>\<open>ValueError\<close> and
  \<^verbatim>\<open>None\<close> raises \<^verbatim>\<open>TypeError\<close>.
\<close>

definition two_decimals :: "rat \<Rightarrow> int" where
  "two_decimals x =
     (let y = 100 * x; f = \<lfloor>y\<rfloor> in
      if y - of_int f < 1 / 2 then f
      else if 1 / 2 < y - of_int f then f + 1
      else if even f then f else f + 1)"

fun format_2f :: "pyval \<Rightarrow> py_error + int" where
  "format_2f (PyInt i) = Inr (two_decimals (valof (float_of_int i)))"
| "format_2f (PyFloat f) = Inr (two_decimals (valof f))"
| "format_2f (PyBool b) = Inr (two_decimals (valof (float_of_int (if b then 1 else 0))))"
| "format_2f (PyStr s) = Inl ValueError"
| "format_2f PyNone = Inl TypeError"

section \<open>The award calculation\<close>

text \<open>
  \<^verbatim>\<open>TAX_RATE = 0.05\<close>: the binary64 number nearest to one twentieth,
  \<^verbatim>\<open>0x3FA999999999999A\<close>, which is \<open>3602879701896397 / 2 ^ 56\<close>.
\<close>

definition TAX_RATE :: float64 where
  "TAX_RATE = F64 3602879701896397 (- 56)"

definition AWARD_ATTRIBUTES :: "int pydict" where
  "AWARD_ATTRIBUTES =
     [''well_dressed'' \<mapsto> 10000,
      ''general_gift'' \<mapsto> 20000,
      ''well_behaved'' \<mapsto> 5000,
      ''osun_state'' \<mapsto> 15000,
      ''female_monthly'' \<mapsto> 1000]"

text \<open>\<^verbatim>\<open>if cond: total_award += AWARD_ATTRIBUTES[key]\<close>\<close>

definition add_award :: "bool \<Rightarrow> string \<Rightarrow> int \<Rightarrow> py_error + int" where
  "add_award cond key total_award =
     (if cond
      then and_then (subscript AWARD_ATTRIBUTES key) (\<lambda>a. Inr (total_award + a))
      else Inr total_award)"

text \<open>
  \<^verbatim>\<open>calculate_award(self, student)\<close>. The student is a dictionary passed by reference,
  so the function returns the dictionary as it is after the call together with the
  dictionary of results.
\<close>

definition calculate_award :: "pyval pydict \<Rightarrow> py_error + (pyval pydict \<times> pyval pydict)" where
  "calculate_award student =
     and_then (subscript AWARD_ATTRIBUTES ''general_gift'') (\<lambda>t0.
     and_then (add_award (truthy (dict_get student ''well_dressed'')) ''well_dressed'' t0) (\<lambda>t1.
     and_then (add_award (truthy (dict_get student ''well_behaved'')) ''well_behaved'' t1) (\<lambda>t2.
     and_then (add_award (dict_get student ''state'' = PyStr ''OSUN'') ''osun_state'' t2) (\<lambda>t3.
     and_then (add_award (dict_get student ''gender'' = PyStr ''Female'') ''female_monthly'' t3)
       (\<lambda>total_award.
          let deduction = fmul (float_of_int total_award) TAX_RATE
          in Inr (student,
                  [''total_award'' \<mapsto> PyInt total_award,
                   ''deduction'' \<mapsto> PyFloat deduction,
                   ''net_payment'' \<mapsto> PyFloat (fsub (float_of_int total_award) deduction)]))))))"

section \<open>Text normalisation\<close>

text \<open>
  The methods of \<^verbatim>\<open>str\<close> that \<^verbatim>\<open>insert_student\<close> calls. A character of a HOL string
  stands for the code point of the same number, so that the strings of the model are the
  Python strings of code points below 256.

  White space is what \<^verbatim>\<open>str.strip()\<close> removes. Below 256 these are the tab, line feed,
  vertical tab, form feed, carriage return, the four separators \<^verbatim>\<open>0x1C\<close> to \<^verbatim>\<open>0x1F\<close>,
  the space, the next-line character \<^verbatim>\<open>0x85\<close> and the no-break space \<^verbatim>\<open>0xA0\<close>.

  The case mappings \<^verbatim>\<open>str.upper()\<close> and \<^verbatim>\<open>str.capitalize()\<close> are modelled on ASCII text
  only (\<open>is_ascii\<close>, Python's \<^verbatim>\<open>str.isascii()\<close>), where they exchange the letters
  \<^verbatim>\<open>a\<close> to \<^verbatim>\<open>z\<close> and \<^verbatim>\<open>A\<close> to \<^verbatim>\<open>Z\<close> and leave every other character alone. Outside
  ASCII Python maps further letters, some to characters above 255 or to two characters;
  \<open>to_upper\<close> and \<open>to_lower\<close> say nothing about those, and what is proved about upper-cased
  and capitalised text is proved for ASCII text.
\<close>

definition whitespace :: string where
  "whitespace = [CHR 0x09, CHR 0x0A, CHR 0x0B, CHR 0x0C, CHR 0x0D,
                 CHR 0x1C, CHR 0x1D, CHR 0x1E, CHR 0x1F, CHR '' '', CHR 0x85, CHR 0xA0]"


definition ascii_lowercase :: string where
  "ascii_lowercase = ''abcdefghijklmnopqrstuvwxyz''"

definition ascii_uppercase :: string where
  "ascii_uppercase = ''ABCDEFGHIJKLMNOPQRSTUVWXYZ''"

definition isspace :: "char \<Rightarrow> bool" where
  "isspace c = (c \<in> set whitespace)"

definition to_upper :: "char \<Rightarrow> char" where
  "to_upper c = (case map_of (zip ascii_lowercase ascii_uppercase) c of None \<Rightarrow> c | Some u \<Rightarrow> u)"

definition to_lower :: "char \<Rightarrow> char" where
  "to_lower c = (case map_of (zip ascii_uppercase ascii_lowercase) c of None \<Rightarrow> c | Some l \<Rightarrow> l)"

definition str_strip :: "string \<Rightarrow> string" where
  "str_strip s = rev (dropWhile isspace (rev (dropWhile isspace s)))"

definition str_upper :: "string \<Rightarrow> string" where
  "str_upper s = map to_upper s"

definition str_capitalize :: "string \<Rightarrow> string" where
  "str_capitalize s = (case s of [] \<Rightarrow> [] | c # cs \<Rightarrow> to_upper c # map to_lower cs)"

section \<open>The record store\<close>

text \<open>
  A row of the table \<^verbatim>\<open>students\<close>. The three text columns hold strings and the two flag
  columns hold integers: \<^verbatim>\<open>insert_student\<close> is called with three strings and two integers
  (the values of two \<^verbatim>\<open>IntVar\<close>).
\<close>

record student_row =
  row_id :: int
  row_name :: string
  row_gender :: string
  row_state :: string
  row_well_dressed :: int
  row_well_behaved :: int

text \<open>
  The database as the one connection of the program sees it. \<open>visible\<close> holds the rows
  that a \<^verbatim>\<open>SELECT\<close> on the connection sees: the committed rows and the rows of the
  connection's open transaction, in the order of insertion. \<open>durable\<close> is what has been
  committed.
\<close>

record database =
  visible :: "student_row list"
  durable :: "student_row list"

definition new_database :: database where
  "new_database = \<lparr>visible = [], durable = []\<rparr>"

text \<open>
  What the storage medium does with one \<^verbatim>\<open>INSERT\<close> followed by \<^verbatim>\<open>commit()\<close>: both work, or
  \<^verbatim>\<open>execute\<close> raises \<^verbatim>\<open>sqlite3.Error\<close> and the statement has no effect, or \<^verbatim>\<open>commit\<close>
  raises it. A \<^verbatim>\<open>COMMIT\<close> that fails either leaves the transaction open (as with
  \<^verbatim>\<open>SQLITE_BUSY\<close>) or has been rolled back by SQLite.
\<close>

datatype medium = Healthy | ExecuteFails | CommitFailsOpen | CommitFailsRolledBack

datatype read_medium = ReadOk | ReadFails

text \<open>The result of a call: a returned value, or an exception that the method does not catch.\<close>

datatype 'a outcome = Returns 'a | Raises py_error

definition MAX_ROWID :: int where
  "MAX_ROWID = 9223372036854775807"

definition fits_int64 :: "int \<Rightarrow> bool" where
  "fits_int64 n = (- 9223372036854775808 \<le> n \<and> n \<le> MAX_ROWID)"

text \<open>
  The key SQLite gives a row inserted without one into a table with an
  \<^verbatim>\<open>INTEGER PRIMARY KEY\<close> column that is not \<^verbatim>\<open>AUTOINCREMENT\<close>: 1 in an empty table, else
  one more than the largest key in use; when that is the largest 64-bit integer, a
  positive key chosen at random (\<open>cand\<close>), and the insertion fails with \<^verbatim>\<open>SQLITE_FULL\<close>
  when no unused one is found.
\<close>

definition new_rowid :: "int \<Rightarrow> student_row list \<Rightarrow> int option" where
  "new_rowid cand rows =
     (if rows = [] then Some 1
      else if Max (set (map row_id rows)) < MAX_ROWID
        then Some (Max (set (map row_id rows)) + 1)
      else if 0 < cand \<and> cand \<le> MAX_ROWID \<and> cand \<notin> set (map row_id rows)
        then Some cand
      else None)"

text \<open>
  \<^verbatim>\<open>insert_student(self, name, gender, state, dressed, behaved)\<close>. Binding an integer
  that does not fit 64 bits raises \<^verbatim>\<open>OverflowError\<close>, which is not an \<^verbatim>\<open>sqlite3.Error\<close> and
  is not caught. An \<^verbatim>\<open>sqlite3.Error\<close> from \<^verbatim>\<open>execute\<close> or from \<^verbatim>\<open>commit\<close> is caught and the
  method returns \<^verbatim>\<open>None\<close>; the handler does not roll back.
\<close>

definition insert_student ::
  "medium \<Rightarrow> int \<Rightarrow> database \<Rightarrow> string \<Rightarrow> string \<Rightarrow> string \<Rightarrow> int \<Rightarrow> int
     \<Rightarrow> int option outcome \<times> database" where
  "insert_student med cand db name gender state dressed behaved =
     (if \<not> (fits_int64 dressed \<and> fits_int64 behaved) then (Raises OverflowError, db)
      else if med = ExecuteFails then (Returns None, db)
      else
        (case new_rowid cand (visible db) of
           None \<Rightarrow> (Returns None, db)
         | Some lastrowid \<Rightarrow>
             let row = \<lparr>row_id = lastrowid,
                        row_name = str_strip name,
                        row_gender = str_capitalize (str_strip gender),
                        row_state = str_upper (str_strip state),
                        row_well_dressed = dressed,
                        row_well_behaved = behaved\<rparr>;
                 inserted = visible db @ [row]
             in (case med of
                   Healthy \<Rightarrow> (Returns (Some lastrowid), \<lparr>visible = inserted, durable = inserted\<rparr>)
                 | CommitFailsOpen \<Rightarrow> (Returns None, \<lparr>visible = inserted, durable = durable db\<rparr>)
                 | CommitFailsRolledBack \<Rightarrow>
                     (Returns None, \<lparr>visible = durable db, durable = durable db\<rparr>)
                 | ExecuteFails \<Rightarrow> (Returns None, db))))"

text \<open>The dictionary that \<^verbatim>\<open>get_all_scholarship_data\<close> builds from a row.\<close>

definition student_of_row :: "student_row \<Rightarrow> pyval pydict" where
  "student_of_row row =
     [''id'' \<mapsto> PyInt (row_id row),
      ''name'' \<mapsto> PyStr (row_name row),
      ''gender'' \<mapsto> PyStr (row_gender row),
      ''state'' \<mapsto> PyStr (row_state row),
      ''well_dressed'' \<mapsto> PyInt (row_well_dressed row),
      ''well_behaved'' \<mapsto> PyInt (row_well_behaved row)]"

text \<open>
  The loop of \<^verbatim>\<open>get_all_scholarship_data\<close> over the fetched rows: the award is calculated,
  \<^verbatim>\<open>student.update(results)\<close> merges it into the dictionary, and the dictionary is appended
  to \<^verbatim>\<open>students_data\<close>.
\<close>

fun students_loop ::
  "student_row list \<Rightarrow> pyval pydict list \<Rightarrow> py_error + pyval pydict list" where
  "students_loop [] students_data = Inr students_data"
| "students_loop (row # rows) students_data =
     and_then (calculate_award (student_of_row row))
       (\<lambda>(student, results). students_loop rows (students_data @ [student ++ results]))"

text \<open>
  \<^verbatim>\<open>get_all_scholarship_data(self)\<close>: an \<^verbatim>\<open>sqlite3.Error\<close> from the query is caught and the
  empty list returned. The query has no \<^verbatim>\<open>ORDER BY\<close>: SQLite scans the table, which gives
  the rows in the order of their keys.
\<close>

definition get_all_scholarship_data :: "read_medium \<Rightarrow> database \<Rightarrow> pyval pydict list outcome" where
  "get_all_scholarship_data rd db =
     (case rd of
        ReadFails \<Rightarrow> Returns []
      | ReadOk \<Rightarrow>
          (case students_loop (sort_key row_id (visible db)) [] of
             Inl err \<Rightarrow> Raises err
           | Inr students_data \<Rightarrow> Returns students_data))"

text \<open>
  The grand totals of \<^verbatim>\<open>update_report\<close>: the loop adds the \<^verbatim>\<open>total_award\<close>, the
  \<^verbatim>\<open>deduction\<close> and the \<^verbatim>\<open>net_payment\<close> of every student to three sums.
\<close>

fun report_totals ::
  "pyval pydict list \<Rightarrow> pyval \<times> pyval \<times> pyval \<Rightarrow> py_error + (pyval \<times> pyval \<times> pyval)" where
  "report_totals [] totals = Inr totals"
| "report_totals (student # students_data) (total_award_sum, total_deduction_sum, total_net_sum) =
     and_then (subscript student ''total_award'') (\<lambda>a.
     and_then (py_add total_award_sum a) (\<lambda>total_award_sum'.
     and_then (subscript student ''deduction'') (\<lambda>d.
     and_then (py_add total_deduction_sum d) (\<lambda>total_deduction_sum'.
     and_then (subscript student ''net_payment'') (\<lambda>n.
     and_then (py_add total_net_sum n) (\<lambda>total_net_sum'.
       report_totals students_data
         (total_award_sum', total_deduction_sum', total_net_sum')))))))"

text \<open>
  \<^verbatim>\<open>update_report(self)\<close>, as far as the numbers go: the students are fetched; with no
  student the report is the message that there are no records, and there are no totals;
  otherwise the three sums start at the integer 0 and the result is the grand totals
  that the last line of the report formats with \<^verbatim>\<open>.2f\<close>.
\<close>

definition update_report ::
  "read_medium \<Rightarrow> database \<Rightarrow> (pyval \<times> pyval \<times> pyval) option outcome" where
  "update_report rd db =
     (case get_all_scholarship_data rd db of
        Raises err \<Rightarrow> Raises err
      | Returns students_data \<Rightarrow>
          if students_data = [] then Returns None
          else (case report_totals students_data (PyInt 0, PyInt 0, PyInt 0) of
                  Inl err \<Rightarrow> Raises err
                | Inr totals \<Rightarrow> Returns (Some totals)))"





section \<open>The rule table of the specification\<close>

text \<open>
  The table of contributions as the specification gives it: the base award and one
  contribution for each condition that holds. \<open>total_of\<close> reads the four conditions off a
  student dictionary.
\<close>

definition spec_total_award :: "bool \<Rightarrow> bool \<Rightarrow> bool \<Rightarrow> bool \<Rightarrow> int" where
  "spec_total_award dressed behaved osun female =
     20000 + (if dressed then 10000 else 0) + (if behaved then 5000 else 0)
           + (if osun then 15000 else 0) + (if female then 1000 else 0)"

definition total_of :: "pyval pydict \<Rightarrow> int" where
  "total_of s = spec_total_award (truthy (dict_get s ''well_dressed''))
                  (truthy (dict_get s ''well_behaved''))
                  (dict_get s ''state'' = PyStr ''OSUN'')
                  (dict_get s ''gender'' = PyStr ''Female'')"

text \<open>
  The dictionary of results for a total, the dictionary that the report holds for a row,
  and the row that a successful \<^verbatim>\<open>insert_student\<close> stores.
\<close>

definition award_results :: "int \<Rightarrow> pyval pydict" where
  "award_results t =
     [''total_award'' \<mapsto> PyInt t,
      ''deduction'' \<mapsto> PyFloat (fmul (float_of_int t) TAX_RATE),
      ''net_payment'' \<mapsto> PyFloat (fsub (float_of_int t) (fmul (float_of_int t) TAX_RATE))]"

definition reported_student :: "student_row \<Rightarrow> pyval pydict" where
  "reported_student row =
     student_of_row row ++ award_results (total_of (student_of_row row))"

definition stored_row :: "int \<Rightarrow> string \<Rightarrow> string \<Rightarrow> string \<Rightarrow> int \<Rightarrow> int \<Rightarrow> student_row" where
  "stored_row i name gender state dressed behaved =
     \<lparr>row_id = i, row_name = str_strip name,
      row_gender = str_capitalize (str_strip gender),
      row_state = str_upper (str_strip state),
      row_well_dressed = dressed, row_well_behaved = behaved\<rparr>"

text \<open>
  The number that a Python number stands for, the sum of the awards of the rows that a
  read sees, and the floats and numbers that hold an integer exactly.
\<close>

fun py_number :: "pyval \<Rightarrow> rat" where
  "py_number (PyInt i) = of_int i"
| "py_number (PyFloat f) = valof f"
| "py_number (PyBool b) = (if b then 1 else 0)"
| "py_number _ = 0"

definition total_awarded :: "database \<Rightarrow> int" where
  "total_awarded db = (\<Sum>row\<leftarrow>visible db. total_of (student_of_row row))"

definition exact_int :: "float64 \<Rightarrow> int \<Rightarrow> bool" where
  "exact_int f k \<longleftrightarrow> expo f \<le> 0 \<and> mant f = k * 2 ^ nat (- expo f)"

definition holds_int :: "pyval \<Rightarrow> int \<Rightarrow> bool" where
  "holds_int v k = (case v of PyInt i \<Rightarrow> i = k | PyFloat f \<Rightarrow> exact_int f k | _ \<Rightarrow> False)"


section \<open>Evaluation of the award calculation\<close>

lemma bit_length_numeral:
  "bit_length (numeral (Num.Bit0 n)) = Suc (bit_length (numeral n))"
  "bit_length (numeral (Num.Bit1 n)) = Suc (bit_length (numeral n))"
  "bit_length (numeral Num.One) = Suc 0"
  "bit_length (Suc 0) = Suc 0" "bit_length 0 = 0"
      apply (subst bit_length.simps, simp)
     apply (subst bit_length.simps, simp add: numeral_Bit1_div_2)
    apply (subst bit_length.simps, simp)
    apply (subst bit_length.simps, simp)
   apply (subst bit_length.simps, simp)
   apply (subst bit_length.simps, simp)
  apply (subst bit_length.simps, simp)
  done

lemma subscript_AWARD_ATTRIBUTES:
  "subscript AWARD_ATTRIBUTES ''general_gift'' = Inr 20000"
  "subscript AWARD_ATTRIBUTES ''well_dressed'' = Inr 10000"
  "subscript AWARD_ATTRIBUTES ''well_behaved'' = Inr 5000"
  "subscript AWARD_ATTRIBUTES ''osun_state'' = Inr 15000"
  "subscript AWARD_ATTRIBUTES ''female_monthly'' = Inr 1000"
  by (simp_all add: subscript_def AWARD_ATTRIBUTES_def)

lemma and_then_Inr: "and_then (Inr v) f = f v"
  by (simp add: and_then_def)

lemma add_award_eq:
  "add_award c ''well_dressed'' t = Inr (t + (if c then 10000 else 0))"
  "add_award c ''well_behaved'' t = Inr (t + (if c then 5000 else 0))"
  "add_award c ''osun_state'' t = Inr (t + (if c then 15000 else 0))"
  "add_award c ''female_monthly'' t = Inr (t + (if c then 1000 else 0))"
  by (simp_all add: add_award_def subscript_AWARD_ATTRIBUTES and_then_Inr)

lemma calculate_award_eq:
  "calculate_award s =
     Inr (s, [''total_award'' \<mapsto> PyInt (total_of s),
              ''deduction'' \<mapsto> PyFloat (fmul (float_of_int (total_of s)) TAX_RATE),
              ''net_payment'' \<mapsto>
                 PyFloat (fsub (float_of_int (total_of s))
                               (fmul (float_of_int (total_of s)) TAX_RATE))])"
  by (simp add: calculate_award_def subscript_AWARD_ATTRIBUTES and_then_Inr add_award_eq
      total_of_def spec_total_award_def Let_def)

lemma deduction_value:
  "valof (fmul (float_of_int (spec_total_award a b c d)) TAX_RATE)
     = of_int (spec_total_award a b c d) / 20"
  by (cases a; cases b; cases c; cases d;
      simp add: spec_total_award_def fmul_def float_of_int_def round_to_53_def TAX_RATE_def
        bit_length_numeral round_half_even_def Let_def valof_def power_int_minus)


lemma net_payment_value:
  "valof (fsub (float_of_int (spec_total_award a b c d))
               (fmul (float_of_int (spec_total_award a b c d)) TAX_RATE))
     = of_int (spec_total_award a b c d) * 19 / 20"
  by (cases a; cases b; cases c; cases d;
      simp add: spec_total_award_def fsub_def fmul_def float_of_int_def round_to_53_def
        TAX_RATE_def bit_length_numeral round_half_even_def Let_def valof_def power_int_minus)

lemma spec_total_award_bounds:
  "20000 \<le> spec_total_award a b c d" "spec_total_award a b c d \<le> 51000"
  by (simp_all add: spec_total_award_def)

lemma TAX_RATE_nearest:
  "\<bar>valof TAX_RATE - 1 / 20\<bar> < 2 powi (- 58)"
  "2 ^ 52 \<le> mant TAX_RATE * 2" "mant TAX_RATE * 2 < 2 ^ 53"
  by (simp_all add: TAX_RATE_def valof_def power_int_minus)

text \<open>
  C1: for every student record, \<^verbatim>\<open>calculate_award\<close> returns a \<^verbatim>\<open>total_award\<close> of 20000,
  plus 10000 if \<^verbatim>\<open>well_dressed\<close> is truthy, plus 5000 if \<^verbatim>\<open>well_behaved\<close> is truthy, plus
  15000 if \<^verbatim>\<open>state\<close> is exactly the string \<^verbatim>\<open>OSUN\<close>, plus 1000 if \<^verbatim>\<open>gender\<close> is exactly
  the string \<^verbatim>\<open>Female\<close>; so the total lies between 20000 and 51000.
\<close>

theorem calculate_award_total_award:
  "\<exists>r t. calculate_award s = Inr (s, r) \<and> r ''total_award'' = Some (PyInt t) \<and>
     t = 20000
         + (if truthy (dict_get s ''well_dressed'') then 10000 else 0)
         + (if truthy (dict_get s ''well_behaved'') then 5000 else 0)
         + (if dict_get s ''state'' = PyStr ''OSUN'' then 15000 else 0)
         + (if dict_get s ''gender'' = PyStr ''Female'' then 1000 else 0) \<and>
     20000 \<le> t \<and> t \<le> 51000"
  by (simp add: calculate_award_eq total_of_def spec_total_award_def)

lemma dict_get_None: "s k = None \<Longrightarrow> dict_get s k = PyNone"
  by (simp add: dict_get_def)

lemma total_of_cong:
  "s' ''well_dressed'' = s ''well_dressed'' \<Longrightarrow> s' ''well_behaved'' = s ''well_behaved'' \<Longrightarrow>
   s' ''state'' = s ''state'' \<Longrightarrow> s' ''gender'' = s ''gender'' \<Longrightarrow> total_of s' = total_of s"
  by (simp add: total_of_def dict_get_def)

lemma calculate_award_twice:
  "\<exists>r. calculate_award s = Inr (s, r) \<and>
        and_then (calculate_award s) (\<lambda>(s1, r1).
          and_then (calculate_award s1) (\<lambda>(s2, r2). Inr (r1 = r2 \<and> s2 = s))) = Inr True"
proof -
  have "\<exists>r. calculate_award s = Inr (s, r)"
    by (simp add: calculate_award_eq)
  then obtain r where r: "calculate_award s = Inr (s, r)" ..
  have "and_then (calculate_award s) (\<lambda>(s1, r1).
          and_then (calculate_award s1) (\<lambda>(s2, r2). Inr (r1 = r2 \<and> s2 = s))) = Inr True"
    by (simp add: r and_then_Inr)
  with r show ?thesis by blast
qed

lemma calculate_award_depends:
  assumes "total_of s' = total_of s"
  shows "map_sum id snd (calculate_award s') = map_sum id snd (calculate_award s)"
  unfolding calculate_award_eq assms by simp

text \<open>
  A witness of C1, at the record of the specification's scenario: a well dressed,
  well behaved female student of Osun state.
\<close>

theorem calculate_award_total_award_witness:
  "\<exists>r. calculate_award [''gender'' \<mapsto> PyStr ''Female'', ''state'' \<mapsto> PyStr ''OSUN'',
                          ''well_dressed'' \<mapsto> PyInt 1, ''well_behaved'' \<mapsto> PyInt 1]
        = Inr ([''gender'' \<mapsto> PyStr ''Female'', ''state'' \<mapsto> PyStr ''OSUN'',
                ''well_dressed'' \<mapsto> PyInt 1, ''well_behaved'' \<mapsto> PyInt 1], r) \<and>
      r ''total_award'' = Some (PyInt 51000)"
  using calculate_award_total_award
    [of "[''gender'' \<mapsto> PyStr ''Female'', ''state'' \<mapsto> PyStr ''OSUN'',
          ''well_dressed'' \<mapsto> PyInt 1, ''well_behaved'' \<mapsto> PyInt 1]"]
  by (simp add: dict_get_def)

text \<open>
  C8: \<^verbatim>\<open>calculate_award\<close> never fails and is deterministic: it returns a result for every
  record, a second call on the record as the first call left it returns the same result,
  and the result depends on nothing but the four fields it reads.
\<close>

theorem calculate_award_deterministic:
  "(\<exists>r. calculate_award s = Inr (s, r) \<and>
        and_then (calculate_award s) (\<lambda>(s1, r1).
          and_then (calculate_award s1) (\<lambda>(s2, r2). Inr (r1 = r2 \<and> s2 = s))) = Inr True) \<and>
   (\<forall>s'. s' ''well_dressed'' = s ''well_dressed'' \<and> s' ''well_behaved'' = s ''well_behaved'' \<and>
         s' ''state'' = s ''state'' \<and> s' ''gender'' = s ''gender''
      \<longrightarrow> map_sum id snd (calculate_award s') = map_sum id snd (calculate_award s))"
  using calculate_award_twice [of s] calculate_award_depends [of _ s] total_of_cong [of _ s]
  by blast

theorem calculate_award_deterministic_witness:
  "map_sum id snd (calculate_award [''name'' \<mapsto> PyStr ''Ada Obi'', ''gender'' \<mapsto> PyStr ''Female''])
     = map_sum id snd (calculate_award [''gender'' \<mapsto> PyStr ''Female''])"
proof (rule calculate_award_deterministic
    [of "[''gender'' \<mapsto> PyStr ''Female'']", THEN conjunct2, THEN spec, THEN mp])
  show "[''name'' \<mapsto> PyStr ''Ada Obi'', ''gender'' \<mapsto> PyStr ''Female''] ''well_dressed''
          = [''gender'' \<mapsto> PyStr ''Female''] ''well_dressed'' \<and>
        [''name'' \<mapsto> PyStr ''Ada Obi'', ''gender'' \<mapsto> PyStr ''Female''] ''well_behaved''
          = [''gender'' \<mapsto> PyStr ''Female''] ''well_behaved'' \<and>
        [''name'' \<mapsto> PyStr ''Ada Obi'', ''gender'' \<mapsto> PyStr ''Female''] ''state''
          = [''gender'' \<mapsto> PyStr ''Female''] ''state'' \<and>
        [''name'' \<mapsto> PyStr ''Ada Obi'', ''gender'' \<mapsto> PyStr ''Female''] ''gender''
          = [''gender'' \<mapsto> PyStr ''Female''] ''gender''"
    by simp
qed

text \<open>
  C9: \<^verbatim>\<open>calculate_award\<close> does not mutate the record it is given: the dictionary after the
  call is the dictionary before it, field by field. The results are a dictionary of their
  own, with the three keys \<^verbatim>\<open>total_award\<close>, \<^verbatim>\<open>deduction\<close> and \<^verbatim>\<open>net_payment\<close>.
\<close>

theorem calculate_award_does_not_mutate:
  "\<exists>s' r. calculate_award s = Inr (s', r) \<and> s' = s \<and>
     s' ''id'' = s ''id'' \<and> s' ''name'' = s ''name'' \<and> s' ''gender'' = s ''gender'' \<and>
     s' ''state'' = s ''state'' \<and> s' ''well_dressed'' = s ''well_dressed'' \<and>
     s' ''well_behaved'' = s ''well_behaved'' \<and>
     dom r = {''total_award'', ''deduction'', ''net_payment''}"
  by (auto simp add: calculate_award_eq)

text \<open>
  C10: \<^verbatim>\<open>calculate_award\<close> is total on records with missing fields: a missing field
  contributes nothing, and a record with none of the four fields gets a total of 20000,
  a deduction of 1000.0 and a net payment of 19000.0.
\<close>

theorem calculate_award_missing_fields:
  "(\<exists>r t. calculate_award s = Inr (s, r) \<and> r ''total_award'' = Some (PyInt t) \<and>
      t = 20000
          + (case s ''well_dressed'' of None \<Rightarrow> 0 | Some v \<Rightarrow> if truthy v then 10000 else 0)
          + (case s ''well_behaved'' of None \<Rightarrow> 0 | Some v \<Rightarrow> if truthy v then 5000 else 0)
          + (case s ''state'' of None \<Rightarrow> 0 | Some v \<Rightarrow> if v = PyStr ''OSUN'' then 15000 else 0)
          + (case s ''gender'' of None \<Rightarrow> 0 | Some v \<Rightarrow> if v = PyStr ''Female'' then 1000 else 0)) \<and>
   (s ''well_dressed'' = None \<and> s ''well_behaved'' = None \<and> s ''state'' = None \<and>
    s ''gender'' = None \<longrightarrow>
      (\<exists>d n. calculate_award s =
           Inr (s, [''total_award'' \<mapsto> PyInt 20000, ''deduction'' \<mapsto> PyFloat d,
                    ''net_payment'' \<mapsto> PyFloat n]) \<and>
         valof d = 1000 \<and> valof n = 19000))"
proof (intro conjI impI)
  show "\<exists>r t. calculate_award s = Inr (s, r) \<and> r ''total_award'' = Some (PyInt t) \<and>
      t = 20000
          + (case s ''well_dressed'' of None \<Rightarrow> 0 | Some v \<Rightarrow> if truthy v then 10000 else 0)
          + (case s ''well_behaved'' of None \<Rightarrow> 0 | Some v \<Rightarrow> if truthy v then 5000 else 0)
          + (case s ''state'' of None \<Rightarrow> 0 | Some v \<Rightarrow> if v = PyStr ''OSUN'' then 15000 else 0)
          + (case s ''gender'' of None \<Rightarrow> 0 | Some v \<Rightarrow> if v = PyStr ''Female'' then 1000 else 0)"
    by (simp add: calculate_award_eq total_of_def spec_total_award_def dict_get_def
        split: option.split)
next
  assume missing: "s ''well_dressed'' = None \<and> s ''well_behaved'' = None \<and> s ''state'' = None \<and>
    s ''gender'' = None"
  then have t: "total_of s = spec_total_award False False False False"
    by (simp add: total_of_def dict_get_None)
  have t20: "spec_total_award False False False False = 20000"
    by (simp add: spec_total_award_def)
  let ?d = "fmul (float_of_int 20000) TAX_RATE"
  let ?n = "fsub (float_of_int 20000) ?d"
  have d: "valof ?d = 1000"
    using deduction_value [of False False False False] by (simp add: t20)
  have n: "valof ?n = 19000"
    using net_payment_value [of False False False False] by (simp add: t20)
  have c: "calculate_award s =
           Inr (s, [''total_award'' \<mapsto> PyInt 20000, ''deduction'' \<mapsto> PyFloat ?d,
                    ''net_payment'' \<mapsto> PyFloat ?n])"
    by (simp add: calculate_award_eq t t20)
  show "\<exists>d n. calculate_award s =
           Inr (s, [''total_award'' \<mapsto> PyInt 20000, ''deduction'' \<mapsto> PyFloat d,
                    ''net_payment'' \<mapsto> PyFloat n]) \<and>
         valof d = 1000 \<and> valof n = 19000"
    using c d n by blast
qed


theorem calculate_award_missing_fields_witness:
  "\<exists>d n. calculate_award Map.empty =
           Inr (Map.empty, [''total_award'' \<mapsto> PyInt 20000, ''deduction'' \<mapsto> PyFloat d,
                    ''net_payment'' \<mapsto> PyFloat n]) \<and>
         valof d = 1000 \<and> valof n = 19000"
proof (rule calculate_award_missing_fields [of Map.empty, THEN conjunct2, THEN mp])
  show "Map.empty ''well_dressed'' = None \<and> Map.empty ''well_behaved'' = None \<and>
        Map.empty ''state'' = None \<and> Map.empty ''gender'' = None"
    by simp
qed


section \<open>Text normalisation: lemmas\<close>

lemma isspace_simps:
  "isspace c = (c \<in> {CHR 0x09, CHR 0x0A, CHR 0x0B, CHR 0x0C, CHR 0x0D,
                      CHR 0x1C, CHR 0x1D, CHR 0x1E, CHR 0x1F, CHR '' '', CHR 0x85, CHR 0xA0})"
  by (simp add: isspace_def whitespace_def)
















section \<open>The record store: lemmas\<close>

lemma calculate_award_results:
  "calculate_award s = Inr (s, award_results (total_of s))"
  by (simp only: calculate_award_eq award_results_def)

lemma students_loop_eq:
  "students_loop rows students_data = Inr (students_data @ map reported_student rows)"
proof (induction rows arbitrary: students_data)
  case Nil
  show ?case by simp
next
  case (Cons row rows)
  show ?case
    by (simp add: calculate_award_results and_then_Inr Cons.IH reported_student_def)
qed

lemma get_all_ReadOk:
  "get_all_scholarship_data ReadOk db
     = Returns (map reported_student (sort_key row_id (visible db)))"
  by (simp add: get_all_scholarship_data_def students_loop_eq)

lemma get_all_ReadFails: "get_all_scholarship_data ReadFails db = Returns []"
  by (simp add: get_all_scholarship_data_def)

lemma sum_list_insort_key:
  fixes f :: "'a \<Rightarrow> int"
  shows "(\<Sum>x\<leftarrow>insort_key k a xs. f x) = f a + (\<Sum>x\<leftarrow>xs. f x)"
  by (induction xs) simp_all

lemma sum_list_sort_key:
  fixes f :: "'a \<Rightarrow> int"
  shows "(\<Sum>x\<leftarrow>sort_key k xs. f x) = (\<Sum>x\<leftarrow>xs. f x)"
  by (induction xs) (simp_all add: sum_list_insort_key)


lemma reported_student_lookup:
  "reported_student row ''id'' = Some (PyInt (row_id row))"
  "reported_student row ''name'' = Some (PyStr (row_name row))"
  "reported_student row ''gender'' = Some (PyStr (row_gender row))"
  "reported_student row ''state'' = Some (PyStr (row_state row))"
  "reported_student row ''well_dressed'' = Some (PyInt (row_well_dressed row))"
  "reported_student row ''well_behaved'' = Some (PyInt (row_well_behaved row))"
  "reported_student row ''total_award'' = Some (PyInt (total_of (student_of_row row)))"
  by (simp_all add: reported_student_def award_results_def student_of_row_def map_add_def)

lemma total_of_student_of_row:
  "total_of (student_of_row row) =
     spec_total_award (row_well_dressed row \<noteq> 0) (row_well_behaved row \<noteq> 0)
       (row_state row = ''OSUN'') (row_gender row = ''Female'')"
  by (simp add: total_of_def student_of_row_def dict_get_def)

lemma insert_student_Some_iff:
  "insert_student med cand db name gender state dressed behaved = (Returns (Some i), db') \<longleftrightarrow>
     fits_int64 dressed \<and> fits_int64 behaved \<and> med = Healthy \<and>
     new_rowid cand (visible db) = Some i \<and>
     db' = \<lparr>visible = visible db @ [stored_row i name gender state dressed behaved],
            durable = visible db @ [stored_row i name gender state dressed behaved]\<rparr>"
  by (cases med)
     (auto simp add: insert_student_def stored_row_def Let_def split: option.splits)



lemma insert_student_cases:
  assumes "insert_student med cand db name gender state dressed behaved = (r, db')"
  shows "(r = Raises OverflowError \<and> db' = db) \<or>
         (r = Returns None \<and> db' = db) \<or>
         (\<exists>i. new_rowid cand (visible db) = Some i \<and>
            ((r = Returns (Some i) \<and> med = Healthy \<and>
              db' = \<lparr>visible = visible db @ [stored_row i name gender state dressed behaved],
                     durable = visible db @ [stored_row i name gender state dressed behaved]\<rparr>) \<or>
             (r = Returns None \<and> med = CommitFailsOpen \<and>
              db' = \<lparr>visible = visible db @ [stored_row i name gender state dressed behaved],
                     durable = durable db\<rparr>) \<or>
             (r = Returns None \<and> med = CommitFailsRolledBack \<and>
              db' = \<lparr>visible = durable db, durable = durable db\<rparr>)))"
  using assms
  by (cases med)
     (auto simp add: insert_student_def stored_row_def Let_def split: option.splits if_splits)





section \<open>The claims about the record store\<close>






lemma insert_ada:
  "insert_student Healthy 0 new_database ''Ada Obi'' ''female'' '' osun '' 1 1 =
     (Returns (Some 1),
      \<lparr>visible = [stored_row 1 ''Ada Obi'' ''female'' '' osun '' 1 1],
       durable = [stored_row 1 ''Ada Obi'' ''female'' '' osun '' 1 1]\<rparr>)"
  by (simp add: insert_student_Some_iff new_rowid_def new_database_def fits_int64_def MAX_ROWID_def)


text \<open>
  C4, as amended: \<^verbatim>\<open>insert_student\<close> stores the two flags as they are given, with no
  coercion; the stored flags are the integers 0 or 1 when the caller passes 0 or 1, as
  the check boxes of the form do.
\<close>

theorem insert_student_stores_flags_as_given:
  assumes "insert_student med cand db name gender state dressed behaved = (Returns (Some i), db')"
  shows "row_id (last (visible db')) = i \<and>
         row_well_dressed (last (visible db')) = dressed \<and>
         row_well_behaved (last (visible db')) = behaved \<and>
         (dressed \<in> {0, 1} \<and> behaved \<in> {0, 1} \<longrightarrow>
            row_well_dressed (last (visible db')) \<in> {0, 1} \<and>
            row_well_behaved (last (visible db')) \<in> {0, 1})"
  using assms by (simp add: insert_student_Some_iff stored_row_def)

theorem insert_student_stores_flags_as_given_witness:
  "row_well_dressed (last (visible (snd
     (insert_student Healthy 0 new_database ''Ada Obi'' ''female'' '' osun '' 1 1)))) \<in> {0, 1} \<and>
   row_well_behaved (last (visible (snd
     (insert_student Healthy 0 new_database ''Ada Obi'' ''female'' '' osun '' 1 1)))) \<in> {0, 1}"
  using insert_student_stores_flags_as_given [OF insert_ada] by (simp add: insert_ada)

text \<open>
  C4 as stated fails: the truthy flag 2 is stored as 2, which is neither 0 nor 1.
\<close>

theorem insert_student_flag_counterexample:
  "fst (insert_student Healthy 0 new_database ''Musa Bello'' ''Male'' ''kano'' 2 0)
     = Returns (Some 1) \<and>
   truthy (PyInt 2) \<and>
   map row_well_dressed
     (visible (snd (insert_student Healthy 0 new_database ''Musa Bello'' ''Male'' ''kano'' 2 0)))
     = [2] \<and>
   row_well_dressed (last
     (visible (snd (insert_student Healthy 0 new_database ''Musa Bello'' ''Male'' ''kano'' 2 0))))
     \<notin> {0, 1}"
  by (simp add: insert_student_def Let_def new_rowid_def new_database_def fits_int64_def
      MAX_ROWID_def)

text \<open>
  What \<^verbatim>\<open>insert_student\<close> does on a failure of the medium: it returns \<^verbatim>\<open>None\<close>; when
  \<^verbatim>\<open>execute\<close> fails or SQLite rolls the transaction back, nothing is committed and the
  attempted row is not visible; after a success the row is committed.
\<close>

lemma insert_student_failure_reported:
  assumes "fits_int64 dressed" "fits_int64 behaved" "med \<noteq> Healthy"
  shows "fst (insert_student med cand db name gender state dressed behaved) = Returns None"
  using assms by (cases med) (simp_all add: insert_student_def Let_def split: option.splits)

lemma insert_student_failure_discards:
  assumes "med = ExecuteFails \<or> med = CommitFailsRolledBack"
    and "insert_student med cand db name gender state dressed behaved = (r, db')"
  shows "durable db' = durable db \<and> (visible db' = visible db \<or> visible db' = durable db)"
  using insert_student_cases [OF assms(2)] assms(1) by auto

lemma insert_student_success_committed:
  assumes "insert_student med cand db name gender state dressed behaved = (Returns (Some i), db')"
  shows "durable db' = visible db' \<and>
         stored_row i name gender state dressed behaved \<in> set (durable db')"
  using assms by (simp add: insert_student_Some_iff)

text \<open>
  C5 at a failing input: when \<^verbatim>\<open>commit()\<close> fails and leaves the transaction open,
  \<^verbatim>\<open>insert_student\<close> returns \<^verbatim>\<open>None\<close> but the record is not discarded: nothing is committed,
  yet the next \<^verbatim>\<open>get_all_scholarship_data\<close> returns the record, and the next successful
  insertion commits it together with its own.
\<close>

theorem insert_student_commit_failure_keeps_record:
  "fst (insert_student CommitFailsOpen 0 new_database ''Ada Obi'' ''female'' '' osun '' 1 1)
     = Returns None \<and>
   durable (snd (insert_student CommitFailsOpen 0 new_database
                   ''Ada Obi'' ''female'' '' osun '' 1 1)) = [] \<and>
   map row_name (visible (snd (insert_student CommitFailsOpen 0 new_database
                   ''Ada Obi'' ''female'' '' osun '' 1 1))) = [''Ada Obi''] \<and>
   (\<exists>students.
      get_all_scholarship_data ReadOk
        (snd (insert_student CommitFailsOpen 0 new_database
                ''Ada Obi'' ''female'' '' osun '' 1 1)) = Returns students \<and>
      map (\<lambda>s. s ''name'') students = [Some (PyStr ''Ada Obi'')]) \<and>
   map row_name (durable (snd (insert_student Healthy 0
       (snd (insert_student CommitFailsOpen 0 new_database
               ''Ada Obi'' ''female'' '' osun '' 1 1))
       ''Musa Bello'' ''Male'' ''kano'' 0 0))) = [''Ada Obi'', ''Musa Bello'']"
proof -
  have s: "str_strip ''Ada Obi'' = ''Ada Obi''" "str_strip ''Musa Bello'' = ''Musa Bello''"
    by (simp_all add: str_strip_def isspace_simps)
  have a: "insert_student CommitFailsOpen 0 new_database ''Ada Obi'' ''female'' '' osun '' 1 1 =
      (Returns None,
       \<lparr>visible = [stored_row 1 ''Ada Obi'' ''female'' '' osun '' 1 1], durable = []\<rparr>)"
    by (simp add: insert_student_def Let_def stored_row_def new_rowid_def new_database_def
        fits_int64_def MAX_ROWID_def)
  have b: "durable (snd (insert_student Healthy 0
       \<lparr>visible = [stored_row 1 ''Ada Obi'' ''female'' '' osun '' 1 1], durable = []\<rparr>
       ''Musa Bello'' ''Male'' ''kano'' 0 0)) =
     [stored_row 1 ''Ada Obi'' ''female'' '' osun '' 1 1,
      stored_row 2 ''Musa Bello'' ''Male'' ''kano'' 0 0]"
    by (simp add: insert_student_def Let_def stored_row_def new_rowid_def fits_int64_def
        MAX_ROWID_def)
  have fa: "fst (insert_student CommitFailsOpen 0 new_database
                   ''Ada Obi'' ''female'' '' osun '' 1 1) = Returns None"
    and sa: "snd (insert_student CommitFailsOpen 0 new_database
                   ''Ada Obi'' ''female'' '' osun '' 1 1) =
       \<lparr>visible = [stored_row 1 ''Ada Obi'' ''female'' '' osun '' 1 1], durable = []\<rparr>"
    by (simp_all only: a fst_conv snd_conv)
  show ?thesis
    unfolding fa sa b by (simp add: get_all_ReadOk reported_student_lookup stored_row_def s)
qed

text \<open>
  C6: \<^verbatim>\<open>get_all_scholarship_data\<close> returns the empty list when the query fails; otherwise
  it returns one dictionary for every row of the table, in the order of the keys, and the
  \<^verbatim>\<open>id\<close>, \<^verbatim>\<open>name\<close>, \<^verbatim>\<open>gender\<close>, \<^verbatim>\<open>state\<close>, \<^verbatim>\<open>well_dressed\<close> and \<^verbatim>\<open>well_behaved\<close> of the
  dictionary are the six columns of the row; and on a table without rows it returns the
  empty list.
\<close>

theorem get_all_scholarship_data_returns_every_record:
  "get_all_scholarship_data ReadFails db = Returns [] \<and>
   (\<exists>students. get_all_scholarship_data ReadOk db = Returns students \<and>
      length students = length (visible db) \<and>
      map (\<lambda>s. (s ''id'', s ''name'', s ''gender'', s ''state'',
                s ''well_dressed'', s ''well_behaved'')) students
        = map (\<lambda>row. (Some (PyInt (row_id row)), Some (PyStr (row_name row)),
                       Some (PyStr (row_gender row)), Some (PyStr (row_state row)),
                       Some (PyInt (row_well_dressed row)), Some (PyInt (row_well_behaved row))))
            (sort_key row_id (visible db))) \<and>
   get_all_scholarship_data rd (db\<lparr>visible := []\<rparr>) = Returns []"
proof (intro conjI)
  show "get_all_scholarship_data ReadFails db = Returns []"
    by (rule get_all_ReadFails)
  show "\<exists>students. get_all_scholarship_data ReadOk db = Returns students \<and>
      length students = length (visible db) \<and>
      map (\<lambda>s. (s ''id'', s ''name'', s ''gender'', s ''state'',
                s ''well_dressed'', s ''well_behaved'')) students
        = map (\<lambda>row. (Some (PyInt (row_id row)), Some (PyStr (row_name row)),
                       Some (PyStr (row_gender row)), Some (PyStr (row_state row)),
                       Some (PyInt (row_well_dressed row)), Some (PyInt (row_well_behaved row))))
            (sort_key row_id (visible db))"
    by (simp add: get_all_ReadOk reported_student_lookup comp_def)
  show "get_all_scholarship_data rd (db\<lparr>visible := []\<rparr>) = Returns []"
    by (cases rd) (simp_all add: get_all_ReadOk get_all_ReadFails)
qed

text \<open>
  A witness of C6: a table of two rows, read in the order of the keys, and the same
  table without its rows.
\<close>

theorem get_all_scholarship_data_returns_every_record_witness:
  "(\<exists>students.
      get_all_scholarship_data ReadOk
        \<lparr>visible =
           [\<lparr>row_id = 2, row_name = ''Musa Bello'', row_gender = ''Male'', row_state = ''KANO'',
             row_well_dressed = 0, row_well_behaved = 0\<rparr>,
            \<lparr>row_id = 1, row_name = ''Ada Obi'', row_gender = ''Female'', row_state = ''OSUN'',
             row_well_dressed = 1, row_well_behaved = 1\<rparr>],
         durable = []\<rparr> = Returns students \<and>
      map (\<lambda>s. (s ''id'', s ''name'', s ''gender'', s ''state'',
                s ''well_dressed'', s ''well_behaved'')) students
        = [(Some (PyInt 1), Some (PyStr ''Ada Obi''), Some (PyStr ''Female''),
            Some (PyStr ''OSUN''), Some (PyInt 1), Some (PyInt 1)),
           (Some (PyInt 2), Some (PyStr ''Musa Bello''), Some (PyStr ''Male''),
            Some (PyStr ''KANO''), Some (PyInt 0), Some (PyInt 0))]) \<and>
   get_all_scholarship_data ReadOk
     (\<lparr>visible =
         [\<lparr>row_id = 2, row_name = ''Musa Bello'', row_gender = ''Male'', row_state = ''KANO'',
           row_well_dressed = 0, row_well_behaved = 0\<rparr>,
          \<lparr>row_id = 1, row_name = ''Ada Obi'', row_gender = ''Female'', row_state = ''OSUN'',
           row_well_dressed = 1, row_well_behaved = 1\<rparr>],
       durable = []\<rparr>\<lparr>visible := []\<rparr>) = Returns []"
proof -
  let ?db = "\<lparr>visible =
           [\<lparr>row_id = 2, row_name = ''Musa Bello'', row_gender = ''Male'', row_state = ''KANO'',
             row_well_dressed = 0, row_well_behaved = 0\<rparr>,
            \<lparr>row_id = 1, row_name = ''Ada Obi'', row_gender = ''Female'', row_state = ''OSUN'',
             row_well_dressed = 1, row_well_behaved = 1\<rparr>],
         durable = []\<rparr>"
  note inst = get_all_scholarship_data_returns_every_record [of ?db ReadOk]
  from inst [THEN conjunct2, THEN conjunct1]
  obtain students where g: "get_all_scholarship_data ReadOk ?db = Returns students"
    and m: "map (\<lambda>s. (s ''id'', s ''name'', s ''gender'', s ''state'',
                      s ''well_dressed'', s ''well_behaved'')) students
        = map (\<lambda>row. (Some (PyInt (row_id row)), Some (PyStr (row_name row)),
                       Some (PyStr (row_gender row)), Some (PyStr (row_state row)),
                       Some (PyInt (row_well_dressed row)), Some (PyInt (row_well_behaved row))))
            (sort_key row_id (visible ?db))"
    by (elim exE conjE)
  have k: "map (\<lambda>row. (Some (PyInt (row_id row)), Some (PyStr (row_name row)),
                       Some (PyStr (row_gender row)), Some (PyStr (row_state row)),
                       Some (PyInt (row_well_dressed row)), Some (PyInt (row_well_behaved row))))
            (sort_key row_id (visible ?db))
      = [(Some (PyInt 1), Some (PyStr ''Ada Obi''), Some (PyStr ''Female''),
            Some (PyStr ''OSUN''), Some (PyInt 1), Some (PyInt 1)),
           (Some (PyInt 2), Some (PyStr ''Musa Bello''), Some (PyStr ''Male''),
            Some (PyStr ''KANO''), Some (PyInt 0), Some (PyInt 0))]"
    by simp
  have first: "\<exists>students. get_all_scholarship_data ReadOk ?db = Returns students \<and>
      map (\<lambda>s. (s ''id'', s ''name'', s ''gender'', s ''state'',
                s ''well_dressed'', s ''well_behaved'')) students
        = [(Some (PyInt 1), Some (PyStr ''Ada Obi''), Some (PyStr ''Female''),
            Some (PyStr ''OSUN''), Some (PyInt 1), Some (PyInt 1)),
           (Some (PyInt 2), Some (PyStr ''Musa Bello''), Some (PyStr ''Male''),
            Some (PyStr ''KANO''), Some (PyInt 0), Some (PyInt 0))]"
    using g m [unfolded k] by (intro exI [of _ students] conjI)
  from first inst [THEN conjunct2, THEN conjunct2] show ?thesis
    by (rule conjI)
qed






section \<open>The totals of the report\<close>

text \<open>
  Sums of integers in binary64: a float that holds an integer, and is given by a mantissa
  and an exponent that is not positive, is rounded to itself as long as the integer is
  below \<open>2 ^ 53\<close>; so adding such floats is exact below that bound.
\<close>

lemma bit_length_le_iff: "bit_length n \<le> b \<longleftrightarrow> n < 2 ^ b"
proof (induction n arbitrary: b rule: bit_length.induct)
  case (1 n)
  show ?case
  proof (cases "n = 0")
    case True
    then show ?thesis
      by (subst bit_length.simps) simp
  next
    case False
    show ?thesis
    proof (cases b)
      case 0
      with False show ?thesis
        by (subst bit_length.simps) simp
    next
      case (Suc c)
      have "bit_length n \<le> Suc c \<longleftrightarrow> bit_length (n div 2) \<le> c"
        using False by (subst bit_length.simps) simp
      also have "\<dots> \<longleftrightarrow> n div 2 < 2 ^ c"
        using False by (rule "1.IH")
      also have "\<dots> \<longleftrightarrow> n < 2 ^ Suc c"
        by auto
      finally show ?thesis
        by (simp only: Suc)
    qed
  qed
qed

lemma exact_int_valof: "exact_int f k \<Longrightarrow> valof f = of_int k"
proof -
  assume e: "exact_int f k"
  then have le: "expo f \<le> 0" and m: "mant f = k * 2 ^ nat (- expo f)"
    by (simp_all add: exact_int_def)
  have "(2::rat) powi (expo f) = inverse (2 ^ nat (- expo f))"
    using le by (simp add: power_int_def power_one_over inverse_eq_divide)
  then show ?thesis
    by (simp add: valof_def m)
qed

lemma round_to_53_exact:
  assumes s: "\<bar>s\<bar> < 2 ^ 53"
  shows "exact_int (round_to_53 (s * 2 ^ j) (- int j)) s"
proof -
  define m where "m = s * 2 ^ j"
  define L where "L = bit_length (nat \<bar>m\<bar>)"
  define k where "k = L - 53"
  have abs_m: "\<bar>m\<bar> = \<bar>s\<bar> * 2 ^ j"
    by (simp add: m_def abs_mult)
  show ?thesis
  proof (cases "L \<le> 53")
    case True
    then have "round_to_53 m (- int j) = F64 m (- int j)"
      by (simp add: round_to_53_def L_def)
    then show ?thesis
      by (simp add: exact_int_def m_def)
  next
    case False
    have "\<bar>s\<bar> * 2 ^ j < 2 ^ 53 * 2 ^ j"
      using s by simp
    then have "\<bar>m\<bar> < 2 ^ (53 + j)"
      by (simp only: abs_m power_add)
    then have "nat \<bar>m\<bar> < 2 ^ (53 + j)"
      by (simp add: nat_less_iff)
    then have "L \<le> 53 + j"
      by (simp only: L_def bit_length_le_iff)
    then have kj: "k \<le> j"
      by (simp add: k_def)
    from False have k1: "1 \<le> k"
      by (simp add: k_def)
    obtain d where d: "j = k + d"
      using kj by (metis le_Suc_ex)
    have m_split: "\<bar>m\<bar> = (\<bar>s\<bar> * 2 ^ d) * 2 ^ k"
      by (simp add: abs_m d power_add)
    have q: "\<bar>m\<bar> div 2 ^ k = \<bar>s\<bar> * 2 ^ d"
      by (simp only: m_split) simp
    have r: "\<bar>m\<bar> mod 2 ^ k = 0"
      by (simp only: m_split) simp
    have half: "(0::int) < 2 ^ (k - 1)"
      by simp
    have rhe: "round_half_even \<bar>m\<bar> k = \<bar>s\<bar> * 2 ^ d"
      using half by (simp add: round_half_even_def Let_def q r)
    have "sgn m = sgn s"
      by (simp add: m_def sgn_mult)
    then have sg: "sgn m * (\<bar>s\<bar> * 2 ^ d) = s * 2 ^ d"
      by (simp add: mult.assoc [symmetric] mult_sgn_abs)
    have "round_to_53 m (- int j) = F64 (sgn m * round_half_even \<bar>m\<bar> k) (- int j + int k)"
      using False by (simp add: round_to_53_def L_def k_def)
    then have res: "round_to_53 m (- int j) = F64 (s * 2 ^ d) (- int d)"
      by (simp add: rhe sg d)
    show ?thesis
      unfolding m_def [symmetric] by (simp add: res exact_int_def)
  qed
qed

lemma fadd_exact:
  assumes x: "exact_int x a" and y: "exact_int y b" and s: "\<bar>a + b\<bar> < 2 ^ 53"
  shows "exact_int (fadd x y) (a + b)"
proof -
  define e where "e = min (expo x) (expo y)"
  define j where "j = nat (- e)"
  from x y have le: "expo x \<le> 0" "expo y \<le> 0"
    and mx: "mant x = a * 2 ^ nat (- expo x)" and my: "mant y = b * 2 ^ nat (- expo y)"
    by (simp_all add: exact_int_def)
  have e0: "e \<le> 0" "e \<le> expo x" "e \<le> expo y"
    using le by (simp_all add: e_def)
  have ej: "e = - int j"
    using e0 by (simp add: j_def)
  have "nat (- expo x) + nat (expo x - e) = j" "nat (- expo y) + nat (expo y - e) = j"
    using le e0 by (simp_all add: j_def)
  then have px: "(2::int) ^ nat (- expo x) * 2 ^ nat (expo x - e) = 2 ^ j"
    and py: "(2::int) ^ nat (- expo y) * 2 ^ nat (expo y - e) = 2 ^ j"
    by (simp_all only: power_add [symmetric])
  have "mant x * 2 ^ nat (expo x - e) + mant y * 2 ^ nat (expo y - e)
          = a * (2 ^ nat (- expo x) * 2 ^ nat (expo x - e))
            + b * (2 ^ nat (- expo y) * 2 ^ nat (expo y - e))"
    by (simp add: mx my)
  also have "\<dots> = (a + b) * 2 ^ j"
    by (simp only: px py distrib_right)
  finally have m: "mant x * 2 ^ nat (expo x - e) + mant y * 2 ^ nat (expo y - e)
                     = (a + b) * 2 ^ j" .
  have "fadd x y = round_to_53 ((a + b) * 2 ^ j) e"
    by (simp only: fadd_def Let_def e_def [symmetric] m)
  then have "fadd x y = round_to_53 ((a + b) * 2 ^ j) (- int j)"
    by (simp only: ej)
  then show ?thesis
    using round_to_53_exact [OF s, of j] by simp
qed

lemma float_of_int_exact: "\<bar>n\<bar> < 2 ^ 53 \<Longrightarrow> exact_int (float_of_int n) n"
  using round_to_53_exact [of n 0] by (simp add: float_of_int_def)


lemma holds_int_number: "holds_int v k \<Longrightarrow> py_number v = of_int k"
  by (cases v) (simp_all add: holds_int_def exact_int_valof)

lemma py_add_exact:
  assumes v: "holds_int v k" and k: "\<bar>k\<bar> < 2 ^ 53" and y: "exact_int y b"
    and s: "\<bar>k + b\<bar> < 2 ^ 53"
  shows "\<exists>v'. py_add v (PyFloat y) = Inr v' \<and> holds_int v' (k + b)"
proof (cases v)
  case (PyInt i)
  with v have "i = k"
    by (simp add: holds_int_def)
  then have "exact_int (fadd (float_of_int i) y) (k + b)"
    using float_of_int_exact [OF k] y s by (simp add: fadd_exact)
  with PyInt show ?thesis
    by (simp add: py_add_def holds_int_def)
next
  case (PyFloat x)
  with v have "exact_int x k"
    by (simp add: holds_int_def)
  then have "exact_int (fadd x y) (k + b)"
    using y s by (rule fadd_exact)
  with PyFloat show ?thesis
    by (simp add: py_add_def holds_int_def)
qed (use v in \<open>simp_all add: holds_int_def\<close>)

lemma deduction_exact_int:
  "exact_int (fmul (float_of_int (spec_total_award a b c d)) TAX_RATE)
     (spec_total_award a b c d div 20)"
  by (cases a; cases b; cases c; cases d;
      simp add: spec_total_award_def fmul_def float_of_int_def round_to_53_def TAX_RATE_def
        bit_length_numeral round_half_even_def Let_def exact_int_def)

lemma net_payment_exact_int:
  "exact_int (fsub (float_of_int (spec_total_award a b c d))
                   (fmul (float_of_int (spec_total_award a b c d)) TAX_RATE))
     (spec_total_award a b c d - spec_total_award a b c d div 20)"
  by (cases a; cases b; cases c; cases d;
      simp add: spec_total_award_def fsub_def fmul_def float_of_int_def round_to_53_def
        TAX_RATE_def bit_length_numeral round_half_even_def Let_def exact_int_def)

lemma spec_total_award_div:
  "0 \<le> spec_total_award a b c d div 20" "spec_total_award a b c d div 20 \<le> 2550"
  "0 \<le> spec_total_award a b c d - spec_total_award a b c d div 20"
  "spec_total_award a b c d - spec_total_award a b c d div 20 \<le> 48450"
  "20 * (spec_total_award a b c d div 20) = spec_total_award a b c d"
  by (cases a; cases b; cases c; cases d; simp add: spec_total_award_def)+


lemma two_decimals_of_int: "two_decimals (of_int k) = 100 * k"
proof -
  have "100 * (of_int k :: rat) = of_int (100 * k)"
    by simp
  then show ?thesis
    unfolding two_decimals_def Let_def by (simp only: floor_of_int) simp
qed

lemma reported_student_amounts:
  "subscript (reported_student row) ''total_award'' = Inr (PyInt (total_of (student_of_row row)))"
  "subscript (reported_student row) ''deduction''
     = Inr (PyFloat (fmul (float_of_int (total_of (student_of_row row))) TAX_RATE))"
  "subscript (reported_student row) ''net_payment''
     = Inr (PyFloat (fsub (float_of_int (total_of (student_of_row row)))
                          (fmul (float_of_int (total_of (student_of_row row))) TAX_RATE)))"
  by (simp_all add: subscript_def reported_student_def award_results_def map_add_def)

lemma report_totals_exact:
  assumes "holds_int d D" and "holds_int n N" and "0 \<le> D" and "0 \<le> N"
    and "D + 2550 * int (length rows) < 2 ^ 53"
    and "N + 48450 * int (length rows) < 2 ^ 53"
  shows "\<exists>d' n'. report_totals (map reported_student rows) (PyInt A, d, n)
            = Inr (PyInt (A + (\<Sum>row\<leftarrow>rows. total_of (student_of_row row))), d', n') \<and>
          holds_int d' (D + (\<Sum>row\<leftarrow>rows. total_of (student_of_row row) div 20)) \<and>
          holds_int n' (N + (\<Sum>row\<leftarrow>rows. total_of (student_of_row row)
                                           - total_of (student_of_row row) div 20))"
  using assms
proof (induction rows arbitrary: A d n D N)
  case Nil
  then show ?case
    by simp
next
  case (Cons row rows)
  define t where "t = total_of (student_of_row row)"
  obtain a b c e where t: "t = spec_total_award a b c e"
    unfolding t_def total_of_def by blast
  have dt: "exact_int (fmul (float_of_int t) TAX_RATE) (t div 20)"
    and nt: "exact_int (fsub (float_of_int t) (fmul (float_of_int t) TAX_RATE)) (t - t div 20)"
    and bd: "0 \<le> t div 20" "t div 20 \<le> 2550"
    and bn: "0 \<le> t - t div 20" "t - t div 20 \<le> 48450"
    unfolding t by (rule deduction_exact_int net_payment_exact_int spec_total_award_div)+
  have len: "int (length (row # rows)) = int (length rows) + 1"
    by simp
  have D: "\<bar>D\<bar> < 2 ^ 53" "\<bar>D + t div 20\<bar> < 2 ^ 53"
    "D + t div 20 + 2550 * int (length rows) < 2 ^ 53" "0 \<le> D + t div 20"
    using Cons.prems(3,5) bd unfolding len by simp_all
  have N: "\<bar>N\<bar> < 2 ^ 53" "\<bar>N + (t - t div 20)\<bar> < 2 ^ 53"
    "N + (t - t div 20) + 48450 * int (length rows) < 2 ^ 53" "0 \<le> N + (t - t div 20)"
    using Cons.prems(4,6) bn unfolding len by simp_all
  obtain d1 where d1: "py_add d (PyFloat (fmul (float_of_int t) TAX_RATE)) = Inr d1"
    and hd1: "holds_int d1 (D + t div 20)"
    using py_add_exact [OF Cons.prems(1) D(1) dt D(2)] by blast
  obtain n1 where n1:
    "py_add n (PyFloat (fsub (float_of_int t) (fmul (float_of_int t) TAX_RATE))) = Inr n1"
    and hn1: "holds_int n1 (N + (t - t div 20))"
    using py_add_exact [OF Cons.prems(2) N(1) nt N(2)] by blast
  have a1: "py_add (PyInt A) (PyInt t) = Inr (PyInt (A + t))"
    by (simp add: py_add_def)
  have step: "report_totals (map reported_student (row # rows)) (PyInt A, d, n)
                = report_totals (map reported_student rows) (PyInt (A + t), d1, n1)"
    by (simp add: reported_student_amounts and_then_Inr t_def [symmetric] a1 d1 n1)
  obtain d' n' where
    r: "report_totals (map reported_student rows) (PyInt (A + t), d1, n1)
          = Inr (PyInt (A + t + (\<Sum>row\<leftarrow>rows. total_of (student_of_row row))), d', n')"
    and hd: "holds_int d' (D + t div 20 + (\<Sum>row\<leftarrow>rows. total_of (student_of_row row) div 20))"
    and hn: "holds_int n' (N + (t - t div 20)
               + (\<Sum>row\<leftarrow>rows. total_of (student_of_row row)
                                - total_of (student_of_row row) div 20))"
    using Cons.IH [OF hd1 hn1 D(4) N(4) D(3) N(3), of "A + t"] by blast
  have hd': "holds_int d' (D + (t div 20 + (\<Sum>row\<leftarrow>rows. total_of (student_of_row row) div 20)))"
    using hd by (simp only: add.assoc)
  have hn': "holds_int n' (N + (t - t div 20
               + (\<Sum>row\<leftarrow>rows. total_of (student_of_row row)
                                - total_of (student_of_row row) div 20)))"
    using hn by (simp only: add.assoc)
  have r': "report_totals (reported_student row # map reported_student rows) (PyInt A, d, n)
              = Inr (PyInt (A + (t + (\<Sum>row\<leftarrow>rows. total_of (student_of_row row)))), d', n')"
    using step r by (simp only: list.map add.assoc)
  show ?case
    unfolding list.map sum_list.Cons t_def [symmetric]
    by (rule exI [of _ d'], rule exI [of _ n']) (intro conjI r' hd' hn')
qed

lemma total_of_sum_div:
  "20 * (\<Sum>row\<leftarrow>rows. total_of (student_of_row row) div 20)
     = (\<Sum>row\<leftarrow>rows. total_of (student_of_row row))"
proof (induction rows)
  case Nil
  show ?case by simp
next
  case (Cons row rows)
  have "20 * (total_of (student_of_row row) div 20) = total_of (student_of_row row)"
    unfolding total_of_def by (rule spec_total_award_div)
  with Cons show ?case
    by simp
qed


lemma total_of_sum_bounds:
  "0 \<le> (\<Sum>row\<leftarrow>rows. total_of (student_of_row row))"
  "(\<Sum>row\<leftarrow>rows. total_of (student_of_row row)) \<le> 51000 * int (length rows)"
proof (induction rows)
  case Nil
  {
    case 1
    show ?case by simp
  next
    case 2
    show ?case by simp
  }
next
  case (Cons row rows)
  have b: "20000 \<le> total_of (student_of_row row)" "total_of (student_of_row row) \<le> 51000"
    unfolding total_of_def by (rule spec_total_award_bounds)+
  {
    case 1
    show ?case using Cons.IH(1) b by simp
  next
    case 2
    show ?case using Cons.IH(2) b by simp
  }
qed

lemma format_2f_exact:
  assumes "holds_int v k" and "\<bar>k\<bar> < 2 ^ 53"
  shows "format_2f v = Inr (100 * k)"
proof (cases v)
  case (PyInt i)
  with assms have "exact_int (float_of_int i) k"
    by (simp add: holds_int_def float_of_int_exact)
  then have "valof (float_of_int i) = of_int k"
    by (rule exact_int_valof)
  with PyInt show ?thesis
    by (simp only: format_2f.simps two_decimals_of_int)
next
  case (PyFloat f)
  with assms have "valof f = of_int k"
    by (simp add: holds_int_def exact_int_valof)
  with PyFloat show ?thesis
    by (simp only: format_2f.simps two_decimals_of_int)
qed (use assms in \<open>simp_all add: holds_int_def\<close>)

lemma update_report_exact:
  assumes ne: "visible db \<noteq> []" and len: "length (visible db) \<le> 100000000000"
  shows "\<exists>a d n. update_report ReadOk db = Returns (Some (a, d, n)) \<and>
           py_number a = of_int (total_awarded db) \<and>
           py_number d = of_int (total_awarded db) * (5 / 100) \<and>
           py_number n = of_int (total_awarded db) - of_int (total_awarded db) * (5 / 100) \<and>
           format_2f a = Inr (100 * total_awarded db) \<and>
           format_2f d = Inr (5 * total_awarded db) \<and>
           format_2f n = Inr (95 * total_awarded db)"
proof -
  define rows where "rows = sort_key row_id (visible db)"
  define T where "T = (\<Sum>row\<leftarrow>rows. total_of (student_of_row row))"
  define D where "D = (\<Sum>row\<leftarrow>rows. total_of (student_of_row row) div 20)"
  define N where "N = (\<Sum>row\<leftarrow>rows. total_of (student_of_row row)
                                   - total_of (student_of_row row) div 20)"
  have l: "int (length rows) \<le> 100000000000"
    using len by (simp add: rows_def)
  have "length rows \<noteq> 0"
    using ne by (simp add: rows_def)
  then have ne': "rows \<noteq> []"
    by simp
  have Tdb: "total_awarded db = T"
    by (simp only: total_awarded_def T_def rows_def sum_list_sort_key)
  have b: "0 + 2550 * int (length rows) < 2 ^ 53" "0 + 48450 * int (length rows) < 2 ^ 53"
    using l by simp_all
  have z: "holds_int (PyInt 0) 0"
    by (simp add: holds_int_def)
  obtain d n where
    r: "report_totals (map reported_student rows) (PyInt 0, PyInt 0, PyInt 0)
          = Inr (PyInt (0 + T), d, n)"
    and hd: "holds_int d (0 + D)" and hn: "holds_int n (0 + N)"
    unfolding T_def D_def N_def
    using report_totals_exact [OF z z order_refl order_refl b, of 0] by blast
  have TD: "20 * D = T"
    unfolding T_def D_def by (rule total_of_sum_div)
  have "N = T - D"
    unfolding N_def T_def D_def by (simp add: sum_list_subtractf)
  then have TN: "N = 19 * D"
    using TD by simp
  have T0: "0 \<le> T" and T1: "T \<le> 51000 * int (length rows)"
    unfolding T_def by (rule total_of_sum_bounds)+
  have bT: "\<bar>T\<bar> < 2 ^ 53" and bD: "\<bar>D\<bar> < 2 ^ 53" and bN: "\<bar>N\<bar> < 2 ^ 53"
    using T0 T1 l TD TN by simp_all
  have hT: "holds_int (PyInt T) T" and hd': "holds_int d D" and hn': "holds_int n N"
    using hd hn by (simp_all add: holds_int_def)
  have pd: "py_number d = of_int D" and pn: "py_number n = of_int N"
    using hd' hn' by (simp_all add: holds_int_number)
  have u: "update_report ReadOk db = Returns (Some (PyInt T, d, n))"
    using ne' r by (simp add: update_report_def get_all_ReadOk rows_def [symmetric])
  have Tr: "(of_int T :: rat) = 20 * of_int D"
    by (simp add: TD [symmetric])
  have pa: "py_number (PyInt T) = of_int T"
    by simp
  have vd: "py_number d = of_int T * (5 / 100)"
    by (simp add: pd Tr)
  have vn: "py_number n = of_int T - of_int T * (5 / 100)"
    by (simp add: pn TN Tr)
  have fa: "format_2f (PyInt T) = Inr (100 * T)"
    using hT bT by (rule format_2f_exact)
  have "format_2f d = Inr (100 * D)"
    using hd' bD by (rule format_2f_exact)
  then have fd: "format_2f d = Inr (5 * T)"
    by (simp add: TD [symmetric])
  have "format_2f n = Inr (100 * N)"
    using hn' bN by (rule format_2f_exact)
  then have fn: "format_2f n = Inr (95 * T)"
    by (simp add: TD [symmetric] TN)
  show ?thesis
    unfolding Tdb
    by (rule exI [of _ "PyInt T"], rule exI [of _ d], rule exI [of _ n])
       (intro conjI u pa vd vn fa fd fn)
qed

text \<open>
  C2: for every student record, the deduction is the product of the total award and
  \<^verbatim>\<open>TAX_RATE\<close> and the net payment is the total award minus the deduction, the deduction
  not being rounded in between. Both are binary64 operations; on every total the
  calculation can produce they are exact: the deduction is the total times 5/100 and
  the net payment is the total minus that, as rational numbers. Aggregation does not
  drift: for up to 100000000000 records the grand totals that \<^verbatim>\<open>update_report\<close> adds up
  are exactly the sum of the awards, 5/100 of it and the rest, and formatting them to
  two decimal places shows exactly these amounts.
\<close>

theorem calculate_award_deduction_net:
  "(\<exists>t d n. calculate_award s =
       Inr (s, [''total_award'' \<mapsto> PyInt t, ''deduction'' \<mapsto> PyFloat d,
                ''net_payment'' \<mapsto> PyFloat n]) \<and>
     d = fmul (float_of_int t) TAX_RATE \<and>
     n = fsub (float_of_int t) d \<and>
     valof d = of_int t * (5 / 100) \<and>
     valof n = of_int t - valof d) \<and>
   (visible db \<noteq> [] \<and> length (visible db) \<le> 100000000000 \<longrightarrow>
     (\<exists>a d n. update_report ReadOk db = Returns (Some (a, d, n)) \<and>
        py_number a = of_int (total_awarded db) \<and>
        py_number d = of_int (total_awarded db) * (5 / 100) \<and>
        py_number n = of_int (total_awarded db) - of_int (total_awarded db) * (5 / 100) \<and>
        format_2f a = Inr (100 * total_awarded db) \<and>
        format_2f d = Inr (5 * total_awarded db) \<and>
        format_2f n = Inr (95 * total_awarded db)))"
proof (intro conjI impI)
  let ?t = "total_of s"
  let ?d = "fmul (float_of_int ?t) TAX_RATE"
  let ?n = "fsub (float_of_int ?t) ?d"
  have d: "valof ?d = of_int ?t * (5 / 100)"
    by (simp add: total_of_def deduction_value)
  have n: "valof ?n = of_int ?t - valof ?d"
    by (simp add: total_of_def deduction_value net_payment_value)
  show "\<exists>t d n. calculate_award s =
       Inr (s, [''total_award'' \<mapsto> PyInt t, ''deduction'' \<mapsto> PyFloat d,
                ''net_payment'' \<mapsto> PyFloat n]) \<and>
     d = fmul (float_of_int t) TAX_RATE \<and>
     n = fsub (float_of_int t) d \<and>
     valof d = of_int t * (5 / 100) \<and>
     valof n = of_int t - valof d"
    by (rule exI [of _ ?t], rule exI [of _ ?d], rule exI [of _ ?n])
       (simp only: calculate_award_eq d n simp_thms)
next
  assume "visible db \<noteq> [] \<and> length (visible db) \<le> 100000000000"
  then have "visible db \<noteq> []" and "length (visible db) \<le> 100000000000"
    by simp_all
  then show "\<exists>a d n. update_report ReadOk db = Returns (Some (a, d, n)) \<and>
        py_number a = of_int (total_awarded db) \<and>
        py_number d = of_int (total_awarded db) * (5 / 100) \<and>
        py_number n = of_int (total_awarded db) - of_int (total_awarded db) * (5 / 100) \<and>
        format_2f a = Inr (100 * total_awarded db) \<and>
        format_2f d = Inr (5 * total_awarded db) \<and>
        format_2f n = Inr (95 * total_awarded db)"
    by (rule update_report_exact)
qed

text \<open>
  A witness of C2: the record of the specification's scenario, and a store of two
  students, whose awards are 51000 and 20000.
\<close>

theorem calculate_award_deduction_net_witness:
  "(\<exists>d n. calculate_award [''gender'' \<mapsto> PyStr ''Female'', ''state'' \<mapsto> PyStr ''OSUN'',
                            ''well_dressed'' \<mapsto> PyInt 1, ''well_behaved'' \<mapsto> PyInt 1]
        = Inr ([''gender'' \<mapsto> PyStr ''Female'', ''state'' \<mapsto> PyStr ''OSUN'',
                ''well_dressed'' \<mapsto> PyInt 1, ''well_behaved'' \<mapsto> PyInt 1],
               [''total_award'' \<mapsto> PyInt 51000, ''deduction'' \<mapsto> PyFloat d,
                ''net_payment'' \<mapsto> PyFloat n]) \<and>
      valof d = 2550 \<and> valof n = 48450) \<and>
   (\<exists>a d n. update_report ReadOk
       \<lparr>visible =
          [\<lparr>row_id = 1, row_name = ''Ada Obi'', row_gender = ''Female'', row_state = ''OSUN'',
            row_well_dressed = 1, row_well_behaved = 1\<rparr>,
           \<lparr>row_id = 2, row_name = ''Musa Bello'', row_gender = ''Male'', row_state = ''KANO'',
            row_well_dressed = 0, row_well_behaved = 0\<rparr>],
        durable = []\<rparr> = Returns (Some (a, d, n)) \<and>
      py_number a = 71000 \<and> py_number d = 3550 \<and> py_number n = 67450 \<and>
      format_2f a = Inr 7100000 \<and> format_2f d = Inr 355000 \<and> format_2f n = Inr 6745000)"
proof -
  let ?s = "[''gender'' \<mapsto> PyStr ''Female'', ''state'' \<mapsto> PyStr ''OSUN'',
             ''well_dressed'' \<mapsto> PyInt 1, ''well_behaved'' \<mapsto> PyInt 1]"
  let ?db = "\<lparr>visible =
          [\<lparr>row_id = 1, row_name = ''Ada Obi'', row_gender = ''Female'', row_state = ''OSUN'',
            row_well_dressed = 1, row_well_behaved = 1\<rparr>,
           \<lparr>row_id = 2, row_name = ''Musa Bello'', row_gender = ''Male'', row_state = ''KANO'',
            row_well_dressed = 0, row_well_behaved = 0\<rparr>],
        durable = []\<rparr>"
  note inst = calculate_award_deduction_net [of ?s ?db]
  obtain t d n where c: "calculate_award ?s =
       Inr (?s, [''total_award'' \<mapsto> PyInt t, ''deduction'' \<mapsto> PyFloat d,
                 ''net_payment'' \<mapsto> PyFloat n])"
    and d: "valof d = of_int t * (5 / 100)" and n: "valof n = of_int t - valof d"
    using inst [THEN conjunct1] by blast
  have "map_sum id (\<lambda>(s', r). r ''total_award'') (calculate_award ?s) = Inr (Some (PyInt t))"
    by (simp add: c)
  moreover
  have "map_sum id (\<lambda>(s', r). r ''total_award'') (calculate_award ?s)
          = Inr (Some (PyInt (total_of ?s)))"
    by (simp add: calculate_award_eq)
  moreover
  have "total_of ?s = 51000"
    by (simp add: total_of_def spec_total_award_def dict_get_def)
  ultimately have t: "t = 51000"
    by simp
  have "valof d = 2550" "valof n = 48450"
    using d n by (simp_all add: t)
  with c t have first: "\<exists>d n. calculate_award ?s
        = Inr (?s, [''total_award'' \<mapsto> PyInt 51000, ''deduction'' \<mapsto> PyFloat d,
                ''net_payment'' \<mapsto> PyFloat n]) \<and>
      valof d = 2550 \<and> valof n = 48450"
    by blast
  have T: "total_awarded ?db = 71000"
    by (simp add: total_awarded_def total_of_student_of_row spec_total_award_def)
  have "visible ?db \<noteq> [] \<and> length (visible ?db) \<le> 100000000000"
    by simp
  with inst [THEN conjunct2] have second:
    "\<exists>a d n. update_report ReadOk ?db = Returns (Some (a, d, n)) \<and>
      py_number a = 71000 \<and> py_number d = 3550 \<and> py_number n = 67450 \<and>
      format_2f a = Inr 7100000 \<and> format_2f d = Inr 355000 \<and> format_2f n = Inr 6745000"
    unfolding T by simp
  from first second show ?thesis
    by (rule conjI)
qed

end
